theory Spec2Isabelle
  imports Main "HOL-Library.Sublist"
begin

section \<open>The artisan backend template\<close>

text \<open>
  The file \<^verbatim>\<open>src/kodarch/templates/artisan/backend.main.py\<close> is eight lines long:
  \<^verbatim>\<open>
  1  from fastapi import FastAPI
  2
  3  app = FastAPI(title="{{PROJECT_NAME}} API")
  4
  5
  6  @app.get("/")
  7  def read_root():
  8      return {"message": "Hello from FastAPI"}
  \<close>
  It is embedded twice: as the program it is (an application object, one registered
  route, one endpoint function), and as the text a scaffolding generator copies.
\<close>

subsection \<open>Data\<close>

text \<open>
  The endpoint returns a Python dict whose keys and values are strings. Python dicts keep
  insertion order, so the dict is an association list.
\<close>

type_synonym payload = "(string \<times> string) list"

text \<open>What a Python call can end with besides a value: a raised exception.\<close>

datatype error = Exception string

datatype http_method = GET | HEAD | POST | PUT | PATCH | DELETE | CONNECT | OPTIONS | TRACE

text \<open>
  A route holds a reference to the function it dispatches to. The file defines one
  function, so the references are the one-element type \<open>endpoint\<close>.
\<close>

datatype endpoint = Read_root

record route =
  route_method :: http_method
  route_path :: string
  route_endpoint :: endpoint

text \<open>The application object: the title it was constructed with and its routes.\<close>

record fastapi =
  title :: string
  routes :: "route list"

text \<open>
  The module's global state. The module binds three names: \<open>FastAPI\<close> (the imported
  class), \<open>read_root\<close> (the function) and \<open>app\<close>; only \<open>app\<close> names an object
  that has state.
\<close>

record module =
  app :: fastapi

record request =
  req_method :: http_method
  req_path :: string
  req_query :: "(string \<times> string) list"
  req_headers :: "(string \<times> string) list"
  req_body :: string

subsection \<open>The program\<close>

text \<open>
  Line 3, the call \<^verbatim>\<open>FastAPI(title=...)\<close>: a new application with the given title
  and no route of this file yet. (The routes the framework adds for its own
  documentation pages are the framework's and are left out.)
\<close>

definition FastAPI :: "string \<Rightarrow> fastapi" where
  "FastAPI t = \<lparr>title = t, routes = []\<rparr>"

text \<open>
  Line 6, the decorator \<^verbatim>\<open>@app.get(path)\<close> applied to a function: the application
  gains a route for method GET on that path, after the routes it already has.
\<close>

definition app_get :: "string \<Rightarrow> endpoint \<Rightarrow> fastapi \<Rightarrow> fastapi" where
  "app_get path f a =
     a\<lparr>routes := routes a @ [\<lparr>route_method = GET, route_path = path, route_endpoint = f\<rparr>]\<rparr>"

text \<open>
  Lines 7 and 8, \<^verbatim>\<open>def read_root(): return {"message": "Hello from FastAPI"}\<close>.
  The function has no parameter. Its body is a single return of a dict literal; state is
  passed through explicitly to make visible that the body neither reads nor assigns any.
\<close>

definition read_root :: "module \<Rightarrow> (error + payload) \<times> module" where
  "read_root g = (Inr [(''message'', ''Hello from FastAPI'')], g)"

text \<open>Executing the module top to bottom: line 3, then the decorated definition.\<close>

definition module_load :: module where
  "module_load =
     (let a = FastAPI ''{{PROJECT_NAME}} API'';
          a = app_get ''/'' Read_root a
      in \<lparr>app = a\<rparr>)"

text \<open>Calling a function through its reference.\<close>

fun call :: "endpoint \<Rightarrow> module \<Rightarrow> (error + payload) \<times> module" where
  "call Read_root g = read_root g"

text \<open>
  A test harness for repeated invocation: the function behind a reference is called
  \<open>n\<close> times in a row, each call in the state the previous one left, and the results
  are collected in order.
\<close>

fun call_times :: "nat \<Rightarrow> endpoint \<Rightarrow> module \<Rightarrow> (error + payload) list \<times> module" where
  "call_times 0 f g = ([], g)"
| "call_times (Suc n) f g =
     (let (r, g') = call f g; (rs, g'') = call_times n f g' in (r # rs, g''))"

subsection \<open>The hosting framework\<close>

text \<open>
  Modelled from the spec: the hosting framework's dispatch, which is a third-party library
  and not part of the repository. The spec describes it as "framework receives request,
  dispatches to handler, handler returns a fixed value", gives status 200 to the returned
  content, and leaves every request that no route of the file matches to "the hosting
  framework's default not-found/method-not-allowed behavior (not defined by this file)".
  The body of a response is the returned content as structured data, not its
  serialisation to bytes.
\<close>

datatype response =
    Response nat payload
  | Framework_default
  | Framework_error error

text \<open>The first route registered for the method and the path, in registration order.\<close>

definition find_route :: "route list \<Rightarrow> http_method \<Rightarrow> string \<Rightarrow> route option" where
  "find_route rs m p = find (\<lambda>r. route_method r = m \<and> route_path r = p) rs"

text \<open>
  One request: the matching route's function is called with no argument (the functions of
  this file declare no parameter, so nothing of the request is handed to them); the
  function table \<open>c\<close> says what a reference stands for.
\<close>

definition dispatch ::
  "(endpoint \<Rightarrow> module \<Rightarrow> (error + payload) \<times> module) \<Rightarrow> module \<Rightarrow> request \<Rightarrow> response \<times> module"
where
  "dispatch c g rq =
     (case find_route (routes (app g)) (req_method rq) (req_path rq) of
        None \<Rightarrow> (Framework_default, g)
      | Some r \<Rightarrow>
          (case c (route_endpoint r) g of
             (Inr p, g') \<Rightarrow> (Response 200 p, g')
           | (Inl e, g') \<Rightarrow> (Framework_error e, g')))"

definition serve :: "module \<Rightarrow> request \<Rightarrow> response \<times> module" where
  "serve = dispatch call"

text \<open>A run of the server: requests answered one after the other.\<close>

fun serve_all :: "module \<Rightarrow> request list \<Rightarrow> response list \<times> module" where
  "serve_all g [] = ([], g)"
| "serve_all g (rq # rqs) =
     (let (r, g') = serve g rq; (rs, g'') = serve_all g' rqs in (r # rs, g''))"

subsection \<open>The template as text, and the generator\<close>

text \<open>The eight lines of the file, character for character.\<close>

definition template_lines :: "string list" where
  "template_lines =
     [''from fastapi import FastAPI'',
      [],
      ''app = FastAPI(title=\"{{PROJECT_NAME}} API\")'',
      [],
      [],
      ''@app.get(\"/\")'',
      ''def read_root():'',
      ''    return {\"message\": \"Hello from FastAPI\"}'']"

text \<open>The placeholder token of the templating interface.\<close>

definition placeholder :: string where
  "placeholder = ''{{PROJECT_NAME}}''"




subsection \<open>How a generated file is read\<close>

text \<open>
  The generator writes the name into the text of line 3, between the quotes of a Python
  string literal. What program the generated file is depends on how Python reads that
  text. The rules below are the Python language's, for a string literal in double quotes
  with no prefix letter; they are not code of the repository. A generated file is one of
  three things: a program that loads, a text Python refuses, or a text the rules below do
  not decide.
\<close>

datatype 'a loading = Loaded 'a | Syntax_error | Not_modelled

text \<open>
  The printable characters of ASCII. Every other character (a control character, or a
  character whose reading depends on the encoding of the file) is left undecided, apart
  from the line feed and the carriage return, which end a line.
\<close>

definition printable :: "char \<Rightarrow> bool" where
  "printable c = (32 \<le> (of_char c :: nat) \<and> (of_char c :: nat) \<le> 126)"

text \<open>
  The one-character escape sequences: a backslash followed by one of these characters
  stands for the character on the right (line feed, tab, carriage return, backslash,
  double quote, single quote, bell, backspace, form feed, vertical tab).
\<close>

definition escapes :: "(char \<times> char) list" where
  "escapes =
     [(CHR ''n'', CHR 0x0A), (CHR ''t'', CHR 0x09), (CHR ''r'', CHR 0x0D),
      (CHR 0x5C, CHR 0x5C), (CHR 0x22, CHR 0x22), (CHR 0x27, CHR 0x27),
      (CHR ''a'', CHR 0x07), (CHR ''b'', CHR 0x08), (CHR ''f'', CHR 0x0C),
      (CHR ''v'', CHR 0x0B)]"

text \<open>
  Reading a literal from the character after its opening quote: the value and the text
  after the closing quote; or no closing quote before the line ends; or something these
  rules leave out (the other escape sequences, a backslash before a line end, a
  character that is not printable).
\<close>

datatype reading = Read_value string string | Unterminated | Unread

fun prepend :: "char \<Rightarrow> reading \<Rightarrow> reading" where
  "prepend c (Read_value v rest) = Read_value (c # v) rest"
| "prepend c Unterminated = Unterminated"
| "prepend c Unread = Unread"

fun read_literal :: "string \<Rightarrow> reading" where
  "read_literal [] = Unterminated"
| "read_literal (c # cs) =
     (if c = CHR 0x22 then Read_value [] cs
      else if \<not> printable c then
        (if c = CHR 0x0A \<or> c = CHR 0x0D then Unterminated else Unread)
      else if c = CHR 0x5C then
        (case cs of
           [] \<Rightarrow> Unread
         | d # ds \<Rightarrow>
             (case map_of escapes d of
                None \<Rightarrow> Unread
              | Some e \<Rightarrow> prepend e (read_literal ds)))
      else prepend c (read_literal cs))"

text \<open>
  Scanning the rest of a line for a literal that is opened and not closed. The flag says
  whether the scan is inside a double-quoted literal. Anything that would need more of
  Python's lexical rules than the above (triple quotes, single quotes, prefix letters
  before a quote, comments, backslashes outside a literal, characters that are not
  printable) ends the scan undecided.
\<close>

datatype scanned = Closed | Open_literal | Unscanned

fun scan :: "bool \<Rightarrow> string \<Rightarrow> scanned" where
  "scan in_literal [] = (if in_literal then Open_literal else Closed)"
| "scan True (c # cs) =
     (if c = CHR 0x22 then scan False cs
      else if \<not> printable c then
        (if c = CHR 0x0A \<or> c = CHR 0x0D then Open_literal else Unscanned)
      else if c = CHR 0x5C then
        (case cs of
           [] \<Rightarrow> Unscanned
         | d # ds \<Rightarrow> if \<not> printable d then Unscanned else scan True ds)
      else scan True cs)"
| "scan False (c # cs) =
     (if c = CHR 0x22 then
        (if prefix [CHR 0x22, CHR 0x22] cs then Unscanned else scan True cs)
      else if c \<in> set [CHR 0x27, CHR 0x5C, CHR ''#''] \<or> \<not> printable c then Unscanned
      else if c \<in> set ''rRbBfFuUtT'' \<and> prefix [CHR 0x22] cs then Unscanned
      else scan False cs)"

text \<open>The text of line 3 up to and including the opening quote of the title.\<close>

definition line3_head :: string where
  "line3_head = ''app = FastAPI(title=\"''"

text \<open>
  Line 3 of a generated file: the title it constructs the application with, when the
  line is the call of line 3 with one string literal for the title; a syntax error when
  a literal on the line is not closed; undecided otherwise.
\<close>

definition read_line3 :: "string \<Rightarrow> string loading" where
  "read_line3 l =
     (if \<not> prefix line3_head l then Not_modelled
      else
        let body = drop (length line3_head) l in
        if prefix [CHR 0x22, CHR 0x22] body then Not_modelled
        else
          (case read_literal body of
             Unterminated \<Rightarrow> Syntax_error
           | Unread \<Rightarrow> Not_modelled
           | Read_value v rest \<Rightarrow>
               if rest = '')'' then Loaded v
               else if scan False rest = Open_literal then Syntax_error
               else Not_modelled))"

text \<open>The program of the file with another title on line 3.\<close>

definition load_with_title :: "string \<Rightarrow> module" where
  "load_with_title t =
     (let a = FastAPI t;
          a = app_get ''/'' Read_root a
      in \<lparr>app = a\<rparr>)"

text \<open>
  Loading a text of eight lines whose lines other than line 3 are the template's: the
  program of the file, with the title line 3 gives.
\<close>

definition load_text :: "string list \<Rightarrow> module loading" where
  "load_text ls =
     (if length ls = 8 \<and> take 2 ls = take 2 template_lines \<and> drop 3 ls = drop 3 template_lines
      then
        (case read_line3 (ls ! 2) of
           Loaded t \<Rightarrow> Loaded (load_with_title t)
         | Syntax_error \<Rightarrow> Syntax_error
         | Not_modelled \<Rightarrow> Not_modelled)
      else Not_modelled)"





section \<open>Auxiliary facts\<close>

subsection \<open>The generator, one step at a time\<close>












subsection \<open>Calls and requests leave the state alone\<close>

lemma call_state: "call f g = (Inr [(''message'', ''Hello from FastAPI'')], g)"
  by (cases f) (simp add: read_root_def)

lemma dispatch_call_state: "snd (dispatch call g rq) = g"
  by (simp add: dispatch_def call_state split: option.splits)

lemma serve_state: "snd (serve g rq) = g"
  by (simp add: serve_def dispatch_call_state)

lemma serve_all_state: "snd (serve_all g rqs) = g"
proof (induction rqs)
  case Nil
  show ?case by simp
next
  case (Cons rq rqs)
  obtain r where r: "serve g rq = (r, g)"
    using serve_state [of g rq] by (cases "serve g rq") simp
  obtain rs where rs: "serve_all g rqs = (rs, g)"
    using Cons.IH by (cases "serve_all g rqs") simp
  show ?case by (simp add: r rs)
qed

subsection \<open>The loaded module\<close>

lemma routes_loaded:
  "routes (app module_load)
     = [\<lparr>route_method = GET, route_path = ''/'', route_endpoint = Read_root\<rparr>]"
  by (simp add: module_load_def FastAPI_def app_get_def)

lemma find_route_loaded:
  "find_route (routes (app module_load)) m p =
     (if m = GET \<and> p = ''/''
      then Some \<lparr>route_method = GET, route_path = ''/'', route_endpoint = Read_root\<rparr>
      else None)"
  by (simp add: routes_loaded find_route_def)

lemma serve_loaded:
  "serve module_load rq =
     (if req_method rq = GET \<and> req_path rq = ''/''
      then (Response 200 [(''message'', ''Hello from FastAPI'')], module_load)
      else (Framework_default, module_load))"
  by (simp add: serve_def dispatch_def find_route_loaded read_root_def)

subsection \<open>Reading generated files\<close>











lemma load_template: "load_text template_lines = Loaded module_load"
  by (simp add: load_text_def read_line3_def line3_head_def template_lines_def escapes_def printable_def
      load_with_title_def module_load_def)





section \<open>Properties\<close>

text \<open>
  C1. Every GET request to the root path is answered with status 200 and the body
  \<^verbatim>\<open>{"message": "Hello from FastAPI"}\<close>: whatever the request carries besides its method
  and path, and whatever requests the loaded application has answered before.
\<close>

theorem get_root_responds_200:
  assumes "req_method rq = GET" and "req_path rq = ''/''"
  shows "fst (serve (snd (serve_all module_load earlier)) rq)
           = Response 200 [(''message'', ''Hello from FastAPI'')]"
  using assms by (simp add: serve_all_state serve_loaded)

text \<open>
  At a GET on \<^verbatim>\<open>/\<close> with a query, a header and a body, sent after a POST to another
  path.
\<close>

theorem get_root_responds_200_witness:
  "req_method \<lparr>req_method = GET, req_path = ''/'', req_query = [(''q'', ''1'')],
       req_headers = [(''accept'', ''*/*'')], req_body = ''x''\<rparr> = GET
   \<and> req_path \<lparr>req_method = GET, req_path = ''/'', req_query = [(''q'', ''1'')],
       req_headers = [(''accept'', ''*/*'')], req_body = ''x''\<rparr> = ''/''
   \<and> fst (serve (snd (serve_all module_load
          [\<lparr>req_method = POST, req_path = ''/items'', req_query = [], req_headers = [],
            req_body = ''{}''\<rparr>]))
        \<lparr>req_method = GET, req_path = ''/'', req_query = [(''q'', ''1'')],
          req_headers = [(''accept'', ''*/*'')], req_body = ''x''\<rparr>)
       = Response 200 [(''message'', ''Hello from FastAPI'')]"
  using get_root_responds_200
    [of "\<lparr>req_method = GET, req_path = ''/'', req_query = [(''q'', ''1'')],
          req_headers = [(''accept'', ''*/*'')], req_body = ''x''\<rparr>"
        "[\<lparr>req_method = POST, req_path = ''/items'', req_query = [], req_headers = [],
            req_body = ''{}''\<rparr>]"]
  by simp

text \<open>
  C2. The root handler is idempotent and free of side effects: called \<open>n\<close> times in a
  row it returns the same payload \<open>n\<close> times and the state after the calls is the state
  before them; its result is the same in any two states (nothing is read); one call
  returns the state it was given (nothing is written); and the same request sent \<open>n\<close>
  times gets the same response \<open>n\<close> times.
\<close>

theorem read_root_idempotent:
  "call_times n Read_root g = (replicate n (Inr [(''message'', ''Hello from FastAPI'')]), g)
   \<and> fst (read_root g) = fst (read_root g')
   \<and> snd (read_root g) = g
   \<and> fst (serve_all module_load (replicate n rq)) = replicate n (fst (serve module_load rq))"
proof -
  have calls:
    "call_times k Read_root h = (replicate k (Inr [(''message'', ''Hello from FastAPI'')]), h)"
    for k h
    by (induction k arbitrary: h) (simp_all add: read_root_def)
  have runs:
    "fst (serve_all module_load (replicate k rq)) = replicate k (fst (serve module_load rq))"
    for k
  proof (induction k)
    case 0
    show ?case by simp
  next
    case (Suc k)
    obtain r where r: "serve module_load rq = (r, module_load)"
      using serve_state [of module_load rq] by (cases "serve module_load rq") simp
    obtain rs where rs: "serve_all module_load (replicate k rq) = (rs, module_load)"
      using serve_all_state [of module_load "replicate k rq"]
      by (cases "serve_all module_load (replicate k rq)") simp
    from Suc.IH show ?case by (simp add: r rs)
  qed
  show ?thesis
    by (simp add: calls runs) (simp add: read_root_def)
qed

text \<open>
  C3. The response to a GET on the root path does not depend on the request: two such
  requests, whatever their query parameters, headers and bodies, get identical responses
  and leave identical states, in any state of the application; the response is the fixed
  one.
\<close>

theorem read_root_ignores_request:
  assumes "req_method r1 = GET" and "req_path r1 = ''/''"
    and "req_method r2 = GET" and "req_path r2 = ''/''"
  shows "serve g r1 = serve g r2
         \<and> fst (serve module_load r1) = Response 200 [(''message'', ''Hello from FastAPI'')]"
proof -
  have same: "serve g r1 = serve g r2"
    using assms by (simp add: serve_def dispatch_def)
  have fixed: "fst (serve module_load r1) = Response 200 [(''message'', ''Hello from FastAPI'')]"
    using assms by (simp add: serve_loaded)
  from same fixed show ?thesis by simp
qed

text \<open>
  Two different requests: one with a query parameter, an authorization header and a
  body, one with none of them.
\<close>

theorem read_root_ignores_request_witness:
  "\<lparr>req_method = GET, req_path = ''/'', req_query = [(''page'', ''2'')],
       req_headers = [(''authorization'', ''Bearer t'')], req_body = ''payload''\<rparr>
     \<noteq> \<lparr>req_method = GET, req_path = ''/'', req_query = [], req_headers = [], req_body = []\<rparr>
   \<and> serve module_load
      \<lparr>req_method = GET, req_path = ''/'', req_query = [(''page'', ''2'')],
        req_headers = [(''authorization'', ''Bearer t'')], req_body = ''payload''\<rparr>
   = serve module_load
      \<lparr>req_method = GET, req_path = ''/'', req_query = [], req_headers = [], req_body = []\<rparr>"
  using read_root_ignores_request
    [of "\<lparr>req_method = GET, req_path = ''/'', req_query = [(''page'', ''2'')],
          req_headers = [(''authorization'', ''Bearer t'')], req_body = ''payload''\<rparr>"
        "\<lparr>req_method = GET, req_path = ''/'', req_query = [], req_headers = [], req_body = []\<rparr>"
        module_load]
  by simp

text \<open>
  C4. The payload the root handler returns is a mapping with exactly one entry: the
  fixed key \<^verbatim>\<open>message\<close> bound to the fixed value \<^verbatim>\<open>Hello from FastAPI\<close>.
  Whatever the state the handler is called in, the payload is this one list of length 1,
  seen as a map its domain is the one key, and the call yields nothing else (the state
  comes back as it was).
\<close>

theorem read_root_single_pair:
  "\<exists>p. read_root g = (Inr p, g)
     \<and> p = [(''message'', ''Hello from FastAPI'')]
     \<and> length p = 1
     \<and> dom (map_of p) = {''message''}
     \<and> map_of p ''message'' = Some ''Hello from FastAPI''"
  by (simp add: read_root_def)

text \<open>
  C5. The title of the application contains the placeholder token
  \<^verbatim>\<open>{{PROJECT_NAME}}\<close>, and the code substitutes nothing: the constructor stores the
  title it is given, registering a route keeps it, so the loaded application's title is
  the template text \<^verbatim>\<open>{{PROJECT_NAME}} API\<close>, it is still that after any requests,
  and it is the text between the quotes of \<^verbatim>\<open>title="..."\<close> on line 3 of the file.
\<close>

theorem title_is_unsubstituted_template:
  "title (app module_load) = ''{{PROJECT_NAME}} API''
   \<and> sublist placeholder (title (app module_load))
   \<and> title (FastAPI t) = t
   \<and> title (app_get p f a) = title a
   \<and> title (app (snd (serve_all module_load rqs))) = ''{{PROJECT_NAME}} API''
   \<and> sublist (''title=\"'' @ title (app module_load) @ ''\"'') (template_lines ! 2)"
proof -
  have t: "title (app module_load) = ''{{PROJECT_NAME}} API''"
    by (simp add: module_load_def FastAPI_def app_get_def)
  have "title (app module_load) = [] @ placeholder @ '' API''"
    by (simp add: t placeholder_def)
  then have s: "sublist placeholder (title (app module_load))"
    by (simp only: sublist_appendI)
  have "template_lines ! 2
          = ''app = FastAPI('' @ (''title=\"'' @ title (app module_load) @ ''\"'') @ '')''"
    by (simp add: t template_lines_def)
  then have l: "sublist (''title=\"'' @ title (app module_load) @ ''\"'') (template_lines ! 2)"
    by (simp only: sublist_appendI)
  show ?thesis
    using s l by (simp add: t serve_all_state FastAPI_def app_get_def)
qed

text \<open>
  C6. The file registers exactly one route, method GET on path \<^verbatim>\<open>/\<close>: the loaded
  application's route list is that one route, a method and a path find a route exactly
  when they are GET and \<^verbatim>\<open>/\<close>, and a request is left to the framework's default
  behaviour exactly when it is not a GET on \<^verbatim>\<open>/\<close>.
\<close>

theorem exactly_one_route:
  "routes (app module_load)
     = [\<lparr>route_method = GET, route_path = ''/'', route_endpoint = Read_root\<rparr>]
   \<and> length (routes (app module_load)) = 1
   \<and> (find_route (routes (app module_load)) m p \<noteq> None) = (m = GET \<and> p = ''/'')
   \<and> (fst (serve module_load rq) = Framework_default)
        = (\<not> (req_method rq = GET \<and> req_path rq = ''/''))"
proof -
  have found: "(find_route (routes (app module_load)) m p \<noteq> None) = (m = GET \<and> p = ''/'')"
    by (simp only: find_route_loaded) simp
  have other: "(fst (serve module_load rq) = Framework_default)
        = (\<not> (req_method rq = GET \<and> req_path rq = ''/''))"
    by (simp only: serve_loaded) simp
  have one: "length (routes (app module_load)) = 1"
    by (simp add: routes_loaded)
  from routes_loaded one found other show ?thesis
    by (intro conjI)
qed

text \<open>
  C7. The root handler never fails: in every state it returns its fixed payload and
  never an exception, so does every call through a function reference, and no request to
  the loaded application, after any earlier requests, is answered with an error raised by
  a handler.
\<close>

theorem read_root_never_fails:
  "fst (read_root g) = Inr [(''message'', ''Hello from FastAPI'')]
   \<and> (\<forall>e. fst (read_root g) \<noteq> Inl e)
   \<and> (\<forall>e. fst (call f g) \<noteq> Inl e)
   \<and> (\<forall>e. fst (serve (snd (serve_all module_load rqs)) rq) \<noteq> Framework_error e)"
  by (simp add: read_root_def call_state serve_all_state serve_loaded)

text \<open>
  C8. The module's state is the application object alone, and nothing the file defines
  changes it once the module is loaded: the handler, a call through a reference and the
  answering of a request each return the state they were given, so after any sequence of
  requests the state is the loaded module; and a module state is determined by its
  \<open>app\<close> field. Loading the module is the one construction on line 3 followed by the
  registration of the route on line 6, which is the last change the object sees.
\<close>

theorem app_not_mutated_after_load:
  "snd (read_root g) = g
   \<and> snd (call f g) = g
   \<and> snd (serve g rq) = g
   \<and> snd (serve_all module_load rqs) = module_load
   \<and> g = \<lparr>app = app g\<rparr>
   \<and> app module_load = app_get ''/'' Read_root (FastAPI ''{{PROJECT_NAME}} API'')"
  by (simp add: read_root_def call_state serve_state serve_all_state module_load_def)







end
